theory Spec2Isabelle
  imports Main "HOL-Library.Char_ord" "HOL-Library.List_Lexorder"
begin

section \<open>Python values shared by the scripts\<close>

text \<open>
  The scripts of the repository are Python. Their integers are unbounded (\<open>int\<close>), their
  strings are character lists, and every exception a modelled statement can raise is a
  value of \<open>py_error\<close>. \<open>Unsupported\<close> is not a Python exception: it marks a format
  string that uses a feature of \<^verbatim>\<open>str.format\<close> outside the fragment modelled below.
\<close>

datatype py_error =
    UnboundLocalError
  | FileNotFoundError
  | IndexError
  | KeyError
  | ValueError
  | Unsupported

text \<open>\<^verbatim>\<open>str(n)\<close> for an integer: decimal digits, with a minus sign for a negative one.\<close>

fun str_nat :: "nat \<Rightarrow> string" where
  "str_nat n =
     (if n < 10 then [''0123456789'' ! n]
      else str_nat (n div 10) @ [''0123456789'' ! (n mod 10)])"

declare str_nat.simps [simp del]

definition str_int :: "int \<Rightarrow> string" where
  "str_int i = (if i < 0 then CHR ''-'' # str_nat (nat (- i)) else str_nat (nat i))"

text \<open>\<^verbatim>\<open>round(x)\<close> applied to an \<^verbatim>\<open>int\<close> returns it unchanged.\<close>

definition round_py :: "int \<Rightarrow> int" where
  "round_py x = x"

text \<open>
  \<^verbatim>\<open>xs[i]\<close>: a negative index counts from the end, an index out of range raises
  \<^verbatim>\<open>IndexError\<close>.
\<close>

definition py_index :: "'a list \<Rightarrow> int \<Rightarrow> py_error + 'a" where
  "py_index xs i =
     (if 0 \<le> i \<and> i < int (length xs) then Inr (xs ! nat i)
      else if - int (length xs) \<le> i \<and> i < 0 then Inr (xs ! nat (int (length xs) + i))
      else Inl IndexError)"

text \<open>\<^verbatim>\<open>s.startswith(p)\<close>.\<close>

fun startswith :: "string \<Rightarrow> string \<Rightarrow> bool" where
  "startswith s [] = True"
| "startswith [] (p # ps) = False"
| "startswith (c # s) (p # ps) = (c = p \<and> startswith s ps)"

subsection \<open>\<^verbatim>\<open>str.format\<close> with keyword arguments\<close>

text \<open>
  The fragment of \<^verbatim>\<open>template.format(**kwargs)\<close> the generator uses: literal text,
  the escapes \<^verbatim>\<open>{{\<close> and \<^verbatim>\<open>}}\<close>, and replacement fields \<^verbatim>\<open>{name}\<close> looked up among
  the keyword arguments (\<^verbatim>\<open>KeyError\<close> when absent). A lone brace is a \<^verbatim>\<open>ValueError\<close>.
  Conversions, format specifications, attribute and index access, nested and
  positional fields are not modelled: a template using them yields \<open>Unsupported\<close>.
  The scanner reads one character at a time; its state says whether it is in literal
  text, just after a brace, or inside a field whose name it is collecting.
\<close>

datatype fstate = Lit | AfterOpen | AfterClose | Field string

definition emit :: "string \<Rightarrow> py_error + string \<Rightarrow> py_error + string" where
  "emit s r = (case r of Inl e \<Rightarrow> Inl e | Inr t \<Rightarrow> Inr (s @ t))"

fun format_go :: "(string \<times> string) list \<Rightarrow> fstate \<Rightarrow> string \<Rightarrow> py_error + string" where
  "format_go kw Lit [] = Inr []"
| "format_go kw AfterOpen [] = Inl ValueError"
| "format_go kw AfterClose [] = Inl ValueError"
| "format_go kw (Field name) [] = Inl ValueError"
| "format_go kw Lit (c # cs) =
     (if c = CHR ''{'' then format_go kw AfterOpen cs
      else if c = CHR ''}'' then format_go kw AfterClose cs
      else emit [c] (format_go kw Lit cs))"
| "format_go kw AfterOpen (c # cs) =
     (if c = CHR ''{'' then emit ''{'' (format_go kw Lit cs)
      else if c \<in> set ''}!:.[]'' then Inl Unsupported
      else format_go kw (Field [c]) cs)"
| "format_go kw AfterClose (c # cs) =
     (if c = CHR ''}'' then emit ''}'' (format_go kw Lit cs)
      else Inl ValueError)"
| "format_go kw (Field name) (c # cs) =
     (if c = CHR ''}'' then
        (case map_of kw name of
           None \<Rightarrow> Inl KeyError
         | Some v \<Rightarrow> emit v (format_go kw Lit cs))
      else if c \<in> set ''{!:.[]'' then Inl Unsupported
      else format_go kw (Field (name @ [c])) cs)"

definition py_format :: "string \<Rightarrow> (string \<times> string) list \<Rightarrow> py_error + string" where
  "py_format template kw = format_go kw Lit template"

section \<open>The synthetic location history generator (\<^verbatim>\<open>tool/generate_google_json.py\<close>)\<close>

subsection \<open>Configuration options\<close>

record config =
  filename :: string
  nr_points :: int
  time_between_points_s :: int
  start_time :: int

definition default_config :: config where
  "default_config =
     \<lparr> filename = ''google_history.json'',
       nr_points = 1000000,
       time_between_points_s = 60,
       start_time = 1379129160146 \<rparr>"

text \<open>
  \<^verbatim>\<open>altitude_rule\<close>, \<^verbatim>\<open>latitude_rule\<close> and \<^verbatim>\<open>longitude_rule\<close> go through the floating
  point \<^verbatim>\<open>sin\<close> and \<^verbatim>\<open>cos\<close>; the script only ever uses their value rounded to an integer.
  These rounded values are parameters of the model.
\<close>

record float_rules =
  altitude_rounded :: "int \<Rightarrow> int"
  latitude_rounded :: "int \<Rightarrow> int"
  longitude_rounded :: "int \<Rightarrow> int"

subsection \<open>Derivation rules\<close>

definition accuracy_rule :: "int \<Rightarrow> int" where
  "accuracy_rule index = 20 * (index mod 30)"

definition time_activity_rule :: "config \<Rightarrow> int \<Rightarrow> int" where
  "time_activity_rule cfg index = time_between_points_s cfg div (1 + (index mod 3))"

text \<open>The local variable \<^verbatim>\<open>extra_delay\<close> of \<^verbatim>\<open>time_rule\<close>.\<close>

definition extra_delay :: "config \<Rightarrow> int \<Rightarrow> int" where
  "extra_delay cfg index =
     (if index mod 50 \<noteq> 0 then 0
      else time_between_points_s cfg * 100 * (index mod 10))"

definition time_rule :: "config \<Rightarrow> int \<Rightarrow> int" where
  "time_rule cfg index = index * 1000 * time_between_points_s cfg + extra_delay cfg index"

definition vertical_accuracy_rule :: "int \<Rightarrow> int" where
  "vertical_accuracy_rule index = accuracy_rule index div 10"

subsection \<open>Record templates\<close>

definition pattern_accuracy_only :: string where
  \<open>pattern_accuracy_only = ''
        "timestampMs": "{time}",
        "latitudeE7": {latitude},
        "longitudeE7": {longitude},
        "accuracy": {accuracy}
''\<close>

definition pattern_activity :: string where
  \<open>pattern_activity = ''
        "timestampMs": "{time}",
        "latitudeE7": {latitude},
        "longitudeE7": {longitude},
        "accuracy": {accuracy},
        "activity": [{{
            "timestampMs": "{time_activity}",
            "activity": [{{
                "type": "UNKNOWN",
                "confidence": 56
            }}, {{
                "type": "STILL",
                "confidence": 38
            }}, {{
                "type": "IN_VEHICLE",
                "confidence": 5
            }}, {{
                "type": "TILTING",
                "confidence": 1
            }}]
        }}]
''\<close>

definition pattern_altitude :: string where
  \<open>pattern_altitude = ''
        "timestampMs": "{time}",
        "latitudeE7": {latitude},
        "longitudeE7": {longitude},
        "accuracy": {accuracy},
        "altitude": {altitude},
        "verticalAccuracy": {vertical_accuracy}
''\<close>

definition all_patterns :: "string list" where
  "all_patterns = [pattern_accuracy_only, pattern_accuracy_only, pattern_altitude,
                   pattern_accuracy_only, pattern_altitude, pattern_activity]"

definition nr_patterns :: int where
  "nr_patterns = int (length all_patterns)"

text \<open>The first write of the script, the text written after each record, and the last write.\<close>

definition lead_in :: string where
  \<open>lead_in = ''{
    "locations": [{''\<close>

definition separator :: string where
  \<open>separator = ''    }, {''\<close>

definition lead_out :: string where
  \<open>lead_out = ''
    }]
}''\<close>

subsection \<open>Rendering one record\<close>

text \<open>
  The body of the \<^verbatim>\<open>while\<close> loop up to the call of \<^verbatim>\<open>pattern.format\<close>: the pattern is
  selected by \<^verbatim>\<open>all_patterns[points_written % nr_patterns]\<close>, every value is computed for
  every pattern, and the template picks the ones it names.
\<close>

definition select_pattern :: "int \<Rightarrow> py_error + string" where
  "select_pattern points_written = py_index all_patterns (points_written mod nr_patterns)"

definition time_of :: "config \<Rightarrow> int \<Rightarrow> int" where
  "time_of cfg points_written = round_py (start_time cfg + time_rule cfg points_written)"

definition time_activity_of :: "config \<Rightarrow> int \<Rightarrow> int" where
  "time_activity_of cfg points_written =
     round_py (time_of cfg points_written + time_activity_rule cfg points_written)"

definition format_args :: "config \<Rightarrow> float_rules \<Rightarrow> int \<Rightarrow> (string \<times> string) list" where
  "format_args cfg fr points_written =
     [(''time'', str_int (time_of cfg points_written)),
      (''time_activity'', str_int (time_activity_of cfg points_written)),
      (''latitude'', str_int (latitude_rounded fr points_written)),
      (''longitude'', str_int (longitude_rounded fr points_written)),
      (''accuracy'', str_int (round_py (accuracy_rule points_written))),
      (''altitude'', str_int (altitude_rounded fr points_written)),
      (''vertical_accuracy'', str_int (round_py (vertical_accuracy_rule points_written)))]"

definition render :: "config \<Rightarrow> float_rules \<Rightarrow> int \<Rightarrow> py_error + string" where
  "render cfg fr points_written =
     (case select_pattern points_written of
        Inl e \<Rightarrow> Inl e
      | Inr pattern \<Rightarrow> py_format pattern (format_args cfg fr points_written))"

subsection \<open>The document assembler\<close>

text \<open>
  The output file is the list of the strings written to it so far, in order; its content
  is their concatenation. The \<^verbatim>\<open>while points_written < nr_points\<close> loop writes the record,
  increments \<^verbatim>\<open>points_written\<close>, and then writes the separator under the test
  \<^verbatim>\<open>points_written <= nr_points\<close>.
\<close>

function points_loop ::
  "config \<Rightarrow> float_rules \<Rightarrow> int \<Rightarrow> string list \<Rightarrow> py_error + string list" where
  "points_loop cfg fr points_written file =
     (if points_written < nr_points cfg then
        (case render cfg fr points_written of
           Inl e \<Rightarrow> Inl e
         | Inr s \<Rightarrow>
             (let file1 = file @ [s];
                  points_written1 = points_written + 1;
                  file2 = (if points_written1 \<le> nr_points cfg then file1 @ [separator]
                           else file1)
              in points_loop cfg fr points_written1 file2))
      else Inr file)"
  by pat_completeness auto
termination
  by (relation "measure (\<lambda>(cfg, fr, points_written, file). nat (nr_points cfg - points_written))")
    auto

declare points_loop.simps [simp del]

definition generate :: "config \<Rightarrow> float_rules \<Rightarrow> py_error + string list" where
  "generate cfg fr =
     (case points_loop cfg fr 0 [lead_in] of
        Inl e \<Rightarrow> Inl e
      | Inr file \<Rightarrow> Inr (file @ [lead_out]))"

definition file_content :: "string list \<Rightarrow> string" where
  "file_content file = concat file"

text \<open>
  The text \<^verbatim>\<open>pattern.format(...)\<close> returns for record \<open>points_written\<close> (empty if the
  call raised; \<open>render_total\<close> below shows that it never does).
\<close>

definition record_text :: "config \<Rightarrow> float_rules \<Rightarrow> int \<Rightarrow> string" where
  "record_text cfg fr points_written =
     (case render cfg fr points_written of Inl e \<Rightarrow> [] | Inr s \<Rightarrow> s)"

text \<open>
  A sample instance of the rounded floating point rules, constant in the index. It agrees
  with the script at index 0, where \<^verbatim>\<open>sin(0) = 0\<close> and \<^verbatim>\<open>cos(0) = 1\<close> exactly.
\<close>

definition sample_floats :: float_rules where
  "sample_floats =
     \<lparr> altitude_rounded = (\<lambda>index. 0),
       latitude_rounded = (\<lambda>index. 0),
       longitude_rounded = (\<lambda>index. 1800000000) \<rparr>"

subsection \<open>Reading the structure of the generated document\<close>

text \<open>
  What a JSON parser sees of the nesting of the generated text: the scanner follows the
  brackets and braces (none of which occurs inside a string of this document), keeping
  the current nesting depth and the number of objects opened at depth 2, which are the
  elements of the array under \<^verbatim>\<open>"locations"\<close>. A document whose brackets are balanced
  ends at depth 0.
\<close>

definition scan_step :: "int \<times> nat \<Rightarrow> char \<Rightarrow> int \<times> nat" where
  "scan_step st c =
     (case st of (depth, elements) \<Rightarrow>
        if c = CHR ''{'' then (depth + 1, if depth = 2 then elements + 1 else elements)
        else if c = CHR ''['' then (depth + 1, elements)
        else if c = CHR ''}'' \<or> c = CHR '']'' then (depth - 1, elements)
        else (depth, elements))"

definition document_shape :: "string \<Rightarrow> int \<times> nat" where
  "document_shape s = foldl scan_step (0, 0) s"

section \<open>The changelog slicer (\<^verbatim>\<open>tool/gen_github_changes.py\<close>)\<close>

text \<open>
  A file is the list of its lines as \<^verbatim>\<open>readlines()\<close> returns them, the file system a map
  from paths to files. The local variable \<^verbatim>\<open>do_output\<close> of \<^verbatim>\<open>run_conversion\<close> is unbound
  until one of the two assignments runs: \<open>None\<close> is the unbound variable, and reading it
  raises \<^verbatim>\<open>UnboundLocalError\<close>. The loop returns the lines written to the target and
  the exception that ended it, if any.
\<close>

fun copy_loop ::
  "string \<Rightarrow> string list \<Rightarrow> bool option \<Rightarrow> string list \<Rightarrow> string list \<times> py_error option" where
  "copy_loop version [] do_output target_file = (target_file, None)"
| "copy_loop version (line # src) do_output target_file =
     (let do_output1 =
            (if startswith line (''# '' @ version) then Some True
             else if startswith line ''# '' then Some False
             else do_output)
      in case do_output1 of
           None \<Rightarrow> (target_file, Some UnboundLocalError)
         | Some b \<Rightarrow>
             copy_loop version src do_output1 (if b then target_file @ [line] else target_file))"

record run_result =
  printed :: "string list"
  files :: "string \<rightharpoonup> string list"
  raised :: "py_error option"

definition run_conversion :: "string list \<Rightarrow> (string \<rightharpoonup> string list) \<Rightarrow> run_result" where
  "run_conversion argv fs =
     (if length argv < 4 then
        \<lparr> printed =
            [''Call with parameters for the source and target files, as well as version.''],
          files = fs, raised = None \<rparr>
      else
        (case fs (argv ! 1) of
           None \<Rightarrow> \<lparr> printed = [], files = fs, raised = Some FileNotFoundError \<rparr>
         | Some src \<Rightarrow>
             (let version = argv ! 3;
                  (target_file, err) = copy_loop version src None []
              in \<lparr> printed = [], files = fs(argv ! 2 \<mapsto> target_file), raised = err \<rparr>)))"

text \<open>
  The slice as the specification words it: line \<open>k\<close> belongs to the section of \<open>version\<close>
  when some line \<open>j \<le> k\<close> is a header beginning with \<^verbatim>\<open>"# " + version\<close> and no line after
  \<open>j\<close> up to and including \<open>k\<close> begins with \<^verbatim>\<open>"# "\<close>. The header line itself opens its
  section.
\<close>

definition in_version_section :: "string \<Rightarrow> string list \<Rightarrow> nat \<Rightarrow> bool" where
  "in_version_section version src k =
     list_ex (\<lambda>j. startswith (src ! j) (''# '' @ version)
                \<and> list_all (\<lambda>m. \<not> startswith (src ! m) ''# '') [Suc j..<Suc k])
       [0..<Suc k]"

definition spec_slice :: "string \<Rightarrow> string list \<Rightarrow> string list" where
  "spec_slice version src =
     map (\<lambda>k. src ! k) (filter (in_version_section version src) [0..<length src])"

text \<open>
  A sample run: a changelog with a title line before its first header, and the command
  line that asks for version 1.0.
\<close>

definition sample_changelog :: "string list" where
  "sample_changelog =
     [''Changelog\<newline>'', ''# 1.0\<newline>'', ''first\<newline>'', ''# 0.9\<newline>'', ''old\<newline>'']"

definition sample_argv :: "string list" where
  "sample_argv = [''gen_github_changes.py'', ''CHANGELOG.md'', ''changes.md'', ''1.0'']"

definition sample_fs :: "string \<rightharpoonup> string list" where
  "sample_fs = [''CHANGELOG.md'' \<mapsto> sample_changelog]"

section \<open>The JSON key lister, in its two copies\<close>

text \<open>
  \<^verbatim>\<open>re.compile('\w+').findall(line)\<close>: the maximal runs of word characters, from left to
  right. Which characters \<^verbatim>\<open>\w\<close> matches is decided by the \<^verbatim>\<open>re\<close> library (for a Python 3
  string: letters, digits and the underscore of the whole Unicode range), so the class is
  a parameter \<open>w\<close>; \<open>ascii_word\<close> is its restriction to ASCII.
\<close>

fun findall_go :: "(char \<Rightarrow> bool) \<Rightarrow> string \<Rightarrow> string \<Rightarrow> string list" where
  "findall_go w cur [] = (if cur = [] then [] else [cur])"
| "findall_go w cur (c # cs) =
     (if w c then findall_go w (cur @ [c]) cs
      else if cur = [] then findall_go w [] cs
      else cur # findall_go w [] cs)"

definition findall :: "(char \<Rightarrow> bool) \<Rightarrow> string \<Rightarrow> string list" where
  "findall w line = findall_go w [] line"

definition ascii_word :: "char \<Rightarrow> bool" where
  "ascii_word c =
     (c \<in> set ''abcdefghijklmnopqrstuvwxyzABCDEFGHIJKLMNOPQRSTUVWXYZ0123456789_'')"

text \<open>The line printed for a name: \<^verbatim>\<open>'{} : {}'.format(name, len(name))\<close>.\<close>

definition name_line :: "string \<Rightarrow> string" where
  "name_line name = name @ '' : '' @ str_nat (length name)"

subsection \<open>\<^verbatim>\<open>tool/google_json_unique_keys.py\<close>\<close>

definition tool_filename :: string where
  "tool_filename = ''Locatiegeschiedenis.json''"

fun tool_collect :: "(char \<Rightarrow> bool) \<Rightarrow> string list \<Rightarrow> string set \<Rightarrow> string set" where
  "tool_collect w [] unique_names = unique_names"
| "tool_collect w (line # lines) unique_names =
     (let m = findall w line
      in tool_collect w lines
           (if length m > 0 then insert (m ! 0) unique_names else unique_names))"

definition tool_unique_keys ::
  "(char \<Rightarrow> bool) \<Rightarrow> (string \<rightharpoonup> string list) \<Rightarrow> py_error + string list" where
  "tool_unique_keys w fs =
     (case fs tool_filename of
        None \<Rightarrow> Inl FileNotFoundError
      | Some lines \<Rightarrow> Inr (map name_line (sorted_list_of_set (tool_collect w lines {}))))"

subsection \<open>\<^verbatim>\<open>tools/google_json_unique_keys.py\<close>\<close>

fun tools_collect :: "(char \<Rightarrow> bool) \<Rightarrow> string list \<Rightarrow> string set \<Rightarrow> string set" where
  "tools_collect w [] unique_names = unique_names"
| "tools_collect w (line # lines) unique_names =
     (let m = findall w line
      in tools_collect w lines
           (if length m > 0 then insert (m ! 0) unique_names else unique_names))"

definition tools_unique_keys ::
  "(char \<Rightarrow> bool) \<Rightarrow> (string \<rightharpoonup> string list) \<Rightarrow> py_error + string list" where
  "tools_unique_keys w fs =
     (case fs ''Locatiegeschiedenis.json'' of
        None \<Rightarrow> Inl FileNotFoundError
      | Some lines \<Rightarrow> Inr (map name_line (sorted_list_of_set (tools_collect w lines {}))))"

text \<open>A sample export, as its lines.\<close>

definition sample_export :: "string list" where
  \<open>sample_export =
     [''{\<newline>'',
      ''  "locations" : [ {\<newline>'',
      ''    "timestampMs" : "1379129160146",\<newline>'',
      ''    "accuracy" : 20\<newline>'',
      ''  }, {\<newline>'',
      ''    "timestampMs" : "1379129220146",\<newline>'',
      ''    "accuracy" : 40\<newline>'',
      ''  } ]\<newline>'',
      ''}\<newline>'']\<close>

section \<open>Properties of the generator\<close>

subsection \<open>Rendering\<close>

text \<open>
  What \<^verbatim>\<open>format\<close> returns for each of the three templates, whatever the texts of the seven
  keyword arguments: every field the template names is among them, and every brace of the
  template is either doubled or part of a field.
\<close>

lemma format_accuracy_only:
  \<open>py_format pattern_accuracy_only
     [(''time'', t), (''time_activity'', ta), (''latitude'', la), (''longitude'', lo),
      (''accuracy'', ac), (''altitude'', al), (''vertical_accuracy'', va)] =
   Inr (''
        "timestampMs": "'' @ t @ ''",
        "latitudeE7": '' @ la @ '',
        "longitudeE7": '' @ lo @ '',
        "accuracy": '' @ ac @ ''
'')\<close>
  by (simp add: py_format_def pattern_accuracy_only_def emit_def)

lemma format_altitude:
  \<open>py_format pattern_altitude
     [(''time'', t), (''time_activity'', ta), (''latitude'', la), (''longitude'', lo),
      (''accuracy'', ac), (''altitude'', al), (''vertical_accuracy'', va)] =
   Inr (''
        "timestampMs": "'' @ t @ ''",
        "latitudeE7": '' @ la @ '',
        "longitudeE7": '' @ lo @ '',
        "accuracy": '' @ ac @ '',
        "altitude": '' @ al @ '',
        "verticalAccuracy": '' @ va @ ''
'')\<close>
  by (simp add: py_format_def pattern_altitude_def emit_def)

lemma format_activity:
  \<open>py_format pattern_activity
     [(''time'', t), (''time_activity'', ta), (''latitude'', la), (''longitude'', lo),
      (''accuracy'', ac), (''altitude'', al), (''vertical_accuracy'', va)] =
   Inr (''
        "timestampMs": "'' @ t @ ''",
        "latitudeE7": '' @ la @ '',
        "longitudeE7": '' @ lo @ '',
        "accuracy": '' @ ac @ '',
        "activity": [{
            "timestampMs": "'' @ ta @ ''",
            "activity": [{
                "type": "UNKNOWN",
                "confidence": 56
            }, {
                "type": "STILL",
                "confidence": 38
            }, {
                "type": "IN_VEHICLE",
                "confidence": 5
            }, {
                "type": "TILTING",
                "confidence": 1
            }]
        }]
'')\<close>
  by (simp add: py_format_def pattern_activity_def emit_def)

text \<open>The index into \<open>all_patterns\<close> is always in range, so rendering never raises.\<close>

lemma nr_patterns_eq: "nr_patterns = 6"
  by (simp add: nr_patterns_def all_patterns_def)

lemma select_pattern_nth: "select_pattern i = Inr (all_patterns ! nat (i mod 6))"
proof -
  have "0 \<le> i mod 6" "i mod 6 < 6" by simp_all
  moreover have "int (length all_patterns) = 6" by (simp add: all_patterns_def)
  ultimately show ?thesis
    by (simp add: select_pattern_def py_index_def nr_patterns_eq)
qed

lemma select_pattern_cases:
  "select_pattern i = Inr pattern_accuracy_only \<or> select_pattern i = Inr pattern_altitude
   \<or> select_pattern i = Inr pattern_activity"
proof -
  have "0 \<le> i mod 6" "i mod 6 < 6" by simp_all
  then have "i mod 6 = 0 \<or> i mod 6 = 1 \<or> i mod 6 = 2 \<or> i mod 6 = 3 \<or> i mod 6 = 4 \<or> i mod 6 = 5"
    by arith
  then show ?thesis
    unfolding select_pattern_nth all_patterns_def by (elim disjE) simp_all
qed

lemma render_total: "render cfg fr i = Inr (record_text cfg fr i)"
  using select_pattern_cases [of i]
  by (auto simp: record_text_def render_def format_args_def
      format_accuracy_only format_altitude format_activity)

text \<open>
  The writes of the loop, and of the whole script: after the lead-in, each index from 0 to
  \<^verbatim>\<open>nr_points - 1\<close> contributes its record followed by the separator; the lead-out ends
  the file. For \<^verbatim>\<open>nr_points\<close> 0 or negative the range is empty.
\<close>

lemma points_loop_writes:
  "points_loop cfg fr k out =
     Inr (out @ concat (map (\<lambda>i. [record_text cfg fr i, separator]) [k..nr_points cfg - 1]))"
proof (induction cfg fr k out rule: points_loop.induct)
  case (1 cfg fr points_written out)
  show ?case
  proof (cases "points_written < nr_points cfg")
    case True
    then have le: "points_written + 1 \<le> nr_points cfg" by simp
    have up: "[points_written..nr_points cfg - 1] =
        points_written # [points_written + 1..nr_points cfg - 1]"
      using True by (simp add: upto_rec1)
    have "points_loop cfg fr points_written out =
        points_loop cfg fr (points_written + 1)
          ((out @ [record_text cfg fr points_written]) @ [separator])"
      using True le by (subst points_loop.simps) (simp add: render_total)
    also have "\<dots> = Inr (((out @ [record_text cfg fr points_written]) @ [separator]) @
        concat (map (\<lambda>i. [record_text cfg fr i, separator])
          [points_written + 1..nr_points cfg - 1]))"
      using "1.IH" [OF True render_total refl refl refl] le by simp
    finally show ?thesis by (simp add: up)
  next
    case False
    then show ?thesis by (subst points_loop.simps) simp
  qed
qed

lemma generate_writes:
  "generate cfg fr =
     Inr (lead_in # concat (map (\<lambda>i. [record_text cfg fr i, separator]) [0..nr_points cfg - 1])
          @ [lead_out])"
  by (simp add: generate_def points_loop_writes)


text \<open>
  The nesting of the document. A rendered number holds digits and at most a minus sign, so
  the scanner passes over it; a record opens and closes its own brackets and leaves the
  depth at 3, inside the current array element; the separator closes the element and opens
  the next one.
\<close>

lemma str_nat_chars: "set (str_nat n) \<subseteq> set ''0123456789''"
proof -
  define D where "D = set ''0123456789''"
  have dm: "\<And>k. k < 10 \<Longrightarrow> ''0123456789'' ! k \<in> D"
    unfolding D_def by (rule nth_mem) simp
  have "set (str_nat n) \<subseteq> D"
  proof (induction n rule: str_nat.induct)
    case (1 n)
    show ?case
    proof (cases "n < 10")
      case True
      have "str_nat n = [''0123456789'' ! n]"
        using True by (subst str_nat.simps) simp
      then show ?thesis using dm [OF True] by simp
    next
      case False
      have m: "n mod 10 < 10" by simp
      have "str_nat n = str_nat (n div 10) @ [''0123456789'' ! (n mod 10)]"
        using False by (subst str_nat.simps) simp
      then show ?thesis using "1.IH" [OF False] dm [OF m] by simp
    qed
  qed
  then show ?thesis by (simp only: D_def)
qed

lemma str_int_chars: "set (str_int i) \<subseteq> set ''-0123456789''"
proof -
  have sub: "set ''0123456789'' \<subseteq> set ''-0123456789''"
    by (rule set_subset_Cons)
  have m: "CHR ''-'' \<in> set ''-0123456789''"
    by (rule list.set_intros(1))
  show ?thesis
  proof (cases "i < 0")
    case True
    then have eq: "set (str_int i) = insert CHR ''-'' (set (str_nat (nat (- i))))"
      by (simp add: str_int_def)
    show ?thesis unfolding eq using str_nat_chars [of "nat (- i)"] sub m by blast
  next
    case False
    then have eq: "set (str_int i) = set (str_nat (nat i))"
      by (simp add: str_int_def)
    show ?thesis unfolding eq using str_nat_chars [of "nat i"] sub by blast
  qed
qed

lemma scan_neutral:
  "\<forall>c \<in> set s. c \<notin> set ''{}[]'' \<Longrightarrow> foldl scan_step st s = st"
proof (induction s arbitrary: st)
  case Nil
  then show ?case by simp
next
  case (Cons c s)
  then have "c \<noteq> CHR ''{''" "c \<noteq> CHR ''}''" "c \<noteq> CHR ''[''" "c \<noteq> CHR '']''"
    by simp_all
  then have "scan_step st c = st"
    by (simp add: scan_step_def split: prod.splits)
  with Cons show ?case by simp
qed

lemma minus_digits_no_bracket: "\<forall>c \<in> set ''-0123456789''. c \<notin> set ''{}[]''"
  by simp

lemma scan_str_int: "foldl scan_step st (str_int i) = st"
proof (rule scan_neutral)
  show "\<forall>c\<in>set (str_int i). c \<notin> set ''{}[]''"
  proof
    fix c assume "c \<in> set (str_int i)"
    with str_int_chars [of i] have "c \<in> set ''-0123456789''" by (rule subsetD)
    with minus_digits_no_bracket show "c \<notin> set ''{}[]''" by (rule bspec)
  qed
qed

lemma scan_accuracy_only:
  assumes "py_format pattern_accuracy_only
     [(''time'', t), (''time_activity'', ta), (''latitude'', la), (''longitude'', lo),
      (''accuracy'', ac), (''altitude'', al), (''vertical_accuracy'', va)] = Inr s"
    and "\<And>st. foldl scan_step st t = st" "\<And>st. foldl scan_step st la = st"
    and "\<And>st. foldl scan_step st lo = st" "\<And>st. foldl scan_step st ac = st"
  shows "foldl scan_step (3, k) s = (3, k)"
proof -
  from assms(1) have "s = projr (py_format pattern_accuracy_only
     [(''time'', t), (''time_activity'', ta), (''latitude'', la), (''longitude'', lo),
      (''accuracy'', ac), (''altitude'', al), (''vertical_accuracy'', va)])" by simp
  then show ?thesis
    unfolding format_accuracy_only by (simp add: assms(2-) scan_step_def)
qed

lemma scan_altitude:
  assumes "py_format pattern_altitude
     [(''time'', t), (''time_activity'', ta), (''latitude'', la), (''longitude'', lo),
      (''accuracy'', ac), (''altitude'', al), (''vertical_accuracy'', va)] = Inr s"
    and "\<And>st. foldl scan_step st t = st" "\<And>st. foldl scan_step st la = st"
    and "\<And>st. foldl scan_step st lo = st" "\<And>st. foldl scan_step st ac = st"
    and "\<And>st. foldl scan_step st al = st" "\<And>st. foldl scan_step st va = st"
  shows "foldl scan_step (3, k) s = (3, k)"
proof -
  from assms(1) have "s = projr (py_format pattern_altitude
     [(''time'', t), (''time_activity'', ta), (''latitude'', la), (''longitude'', lo),
      (''accuracy'', ac), (''altitude'', al), (''vertical_accuracy'', va)])" by simp
  then show ?thesis
    unfolding format_altitude by (simp add: assms(2-) scan_step_def)
qed

lemma scan_activity:
  assumes "py_format pattern_activity
     [(''time'', t), (''time_activity'', ta), (''latitude'', la), (''longitude'', lo),
      (''accuracy'', ac), (''altitude'', al), (''vertical_accuracy'', va)] = Inr s"
    and "\<And>st. foldl scan_step st t = st" "\<And>st. foldl scan_step st la = st"
    and "\<And>st. foldl scan_step st lo = st" "\<And>st. foldl scan_step st ac = st"
    and "\<And>st. foldl scan_step st ta = st"
  shows "foldl scan_step (3, k) s = (3, k)"
proof -
  from assms(1) have "s = projr (py_format pattern_activity
     [(''time'', t), (''time_activity'', ta), (''latitude'', la), (''longitude'', lo),
      (''accuracy'', ac), (''altitude'', al), (''vertical_accuracy'', va)])" by simp
  then show ?thesis
    unfolding format_activity by (simp add: assms(2-) scan_step_def)
qed

lemma scan_record: "foldl scan_step (3, k) (record_text cfg fr i) = (3, k)"
proof -
  consider "select_pattern i = Inr pattern_accuracy_only"
    | "select_pattern i = Inr pattern_altitude"
    | "select_pattern i = Inr pattern_activity"
    using select_pattern_cases [of i] by blast
  then show ?thesis
  proof cases
    case 1
    then have "py_format pattern_accuracy_only (format_args cfg fr i) = Inr (record_text cfg fr i)"
      using render_total [of cfg fr i] by (simp add: render_def)
    then show ?thesis
      unfolding format_args_def by (rule scan_accuracy_only) (rule scan_str_int)+
  next
    case 2
    then have "py_format pattern_altitude (format_args cfg fr i) = Inr (record_text cfg fr i)"
      using render_total [of cfg fr i] by (simp add: render_def)
    then show ?thesis
      unfolding format_args_def by (rule scan_altitude) (rule scan_str_int)+
  next
    case 3
    then have "py_format pattern_activity (format_args cfg fr i) = Inr (record_text cfg fr i)"
      using render_total [of cfg fr i] by (simp add: render_def)
    then show ?thesis
      unfolding format_args_def by (rule scan_activity) (rule scan_str_int)+
  qed
qed

lemma scan_lead_in: "foldl scan_step (0, 0) lead_in = (3, 1)"
  by (simp add: lead_in_def scan_step_def)

lemma scan_separator: "foldl scan_step (3, k) separator = (3, Suc k)"
  by (simp add: separator_def scan_step_def)

lemma scan_lead_out: "foldl scan_step (3, k) lead_out = (0, k)"
  by (simp add: lead_out_def scan_step_def)

lemma scan_records:
  "foldl scan_step (3, k)
     (concat (concat (map (\<lambda>i. [record_text cfg fr i, separator]) js))) = (3, k + length js)"
  by (induction js arbitrary: k) (simp_all add: scan_record scan_separator)

lemma length_upto_nat: "length [0..n - 1] = nat n"
  by simp

lemma document_shape_writes:
  "document_shape (file_content
     (lead_in # concat (map (\<lambda>i. [record_text cfg fr i, separator]) [0..nr_points cfg - 1])
        @ [lead_out])) = (0, Suc (nat (nr_points cfg)))"
  by (simp add: document_shape_def file_content_def scan_lead_in scan_records scan_lead_out)

subsection \<open>Derivation rules\<close>

lemma extra_delay_zero: "extra_delay cfg i = 0"
proof (cases "i mod 50 = 0")
  case True
  have "i mod 50 mod 10 = i mod 10" by (rule mod_mod_cancel) simp
  with True have "i mod 10 = 0" by simp
  with True show ?thesis by (simp add: extra_delay_def)
next
  case False
  then show ?thesis by (simp add: extra_delay_def)
qed

text \<open>
  Claim C3. For every index, the extra delay of \<^verbatim>\<open>time_rule\<close> is 0 when the index is not a
  multiple of 50 and \<^verbatim>\<open>time_between_points_s * 100 * (index % 10)\<close> when it is, and the
  timestamp of the record is the start time plus \<^verbatim>\<open>index * 1000 * time_between_points_s\<close>
  plus that extra delay. The index need not even be non-negative.
\<close>

theorem extra_delay_formula:
  "extra_delay cfg i =
     (if i mod 50 \<noteq> 0 then 0 else time_between_points_s cfg * 100 * (i mod 10))
   \<and> (i mod 50 = 0 \<longrightarrow> extra_delay cfg i = time_between_points_s cfg * 100 * (i mod 10))
   \<and> time_of cfg i = start_time cfg + i * 1000 * time_between_points_s cfg + extra_delay cfg i"
  by (simp add: extra_delay_def time_of_def time_rule_def round_py_def)

theorem extra_delay_formula_witness:
  "(50::int) mod 50 = 0
   \<and> extra_delay default_config 50 = time_between_points_s default_config * 100 * (50 mod 10)
   \<and> time_of default_config 50 = 1379129160146 + 50 * 1000 * 60 + extra_delay default_config 50"
  using extra_delay_formula [of default_config 50] by (simp add: default_config_def)

text \<open>
  Claim C4. A multiple of 50 is a multiple of 10, so the extra delay is 0 at every index:
  the timestamp is exactly linear in the index, and strictly increasing when
  \<^verbatim>\<open>time_between_points_s\<close> is positive.
\<close>

theorem timestamps_linear:
  "extra_delay cfg i = 0
   \<and> time_of cfg i = start_time cfg + 1000 * time_between_points_s cfg * i
   \<and> (0 < time_between_points_s cfg \<longrightarrow> i < j \<longrightarrow> time_of cfg i < time_of cfg j)"
proof -
  have t: "\<And>k. time_of cfg k = start_time cfg + 1000 * time_between_points_s cfg * k"
    by (simp add: time_of_def time_rule_def round_py_def extra_delay_zero)
  have "time_of cfg i < time_of cfg j" if "0 < time_between_points_s cfg" "i < j"
    using that by (simp add: t)
  then show ?thesis by (simp add: extra_delay_zero t)
qed

theorem timestamps_linear_witness:
  "extra_delay default_config 50 = 0
   \<and> time_of default_config 50 = 1379129160146 + 1000 * 60 * 50
   \<and> time_of default_config 50 < time_of default_config 51"
  using timestamps_linear [of default_config 50 51] by (simp add: default_config_def)

text \<open>
  Claim C5. The pattern selected for index \<open>i\<close> is entry \<open>i mod 6\<close> of the fixed rotation
  plain, plain, altitude, plain, altitude, activity (plain is \<open>pattern_accuracy_only\<close>);
  the selection never raises.
\<close>

theorem pattern_rotation:
  "nr_patterns = 6
   \<and> select_pattern i =
       Inr ([pattern_accuracy_only, pattern_accuracy_only, pattern_altitude,
             pattern_accuracy_only, pattern_altitude, pattern_activity] ! nat (i mod 6))"
  using select_pattern_nth [of i] by (simp add: nr_patterns_eq all_patterns_def)

text \<open>
  Claim C9. The accuracy of record \<open>i\<close> is \<open>20 * (i mod 30)\<close>, between 0 and 580, and its
  vertical accuracy is the accuracy floor-divided by 10.
\<close>

theorem accuracy_range:
  "accuracy_rule i = 20 * (i mod 30)
   \<and> 0 \<le> accuracy_rule i \<and> accuracy_rule i \<le> 580
   \<and> vertical_accuracy_rule i = accuracy_rule i div 10
   \<and> vertical_accuracy_rule i = 2 * (i mod 30)"
proof -
  have "0 \<le> i mod 30" "i mod 30 < 30" by simp_all
  then show ?thesis by (simp add: accuracy_rule_def vertical_accuracy_rule_def)
qed

text \<open>The divisor of \<^verbatim>\<open>time_activity_rule\<close> is at least 1: the division never raises.\<close>

lemma time_activity_rule_divisor: "0 < 1 + i mod (3::int)"
proof -
  have "0 \<le> i mod 3" by simp
  then show ?thesis by simp
qed

subsection \<open>The generated document\<close>

lemma generate_document_shape:
  "\<exists>out. generate cfg fr = Inr out
     \<and> document_shape (file_content out) = (0, Suc (nat (nr_points cfg)))"
  using document_shape_writes [of cfg fr] by (simp add: generate_writes)

lemma record_text_first:
  \<open>record_text default_config sample_floats 0 = ''
        "timestampMs": "1379129160146",
        "latitudeE7": 0,
        "longitudeE7": 1800000000,
        "accuracy": 0
''\<close>
proof -
  have "select_pattern 0 = Inr pattern_accuracy_only"
    by (simp add: select_pattern_nth all_patterns_def)
  then show ?thesis
    by (simp add: record_text_def render_def format_args_def format_accuracy_only
        time_of_def time_activity_of_def time_rule_def extra_delay_def time_activity_rule_def
        accuracy_rule_def vertical_accuracy_rule_def round_py_def default_config_def
        sample_floats_def str_int_def str_nat.simps)
qed

lemma format_args_nr_points:
  "format_args (cfg\<lparr>nr_points := n\<rparr>) fr i = format_args cfg fr i"
  by (simp add: format_args_def time_of_def time_activity_of_def
      time_rule_def extra_delay_def time_activity_rule_def)

lemma record_text_nr_points [simp]:
  "record_text (cfg\<lparr>nr_points := n\<rparr>) fr i = record_text cfg fr i"
  by (simp add: record_text_def render_def format_args_nr_points cong: sum.case_cong)

text \<open>
  Claim C1. The document assembler is to write the separator after each record except
  the last, so that the array under \<^verbatim>\<open>"locations"\<close> has exactly \<^verbatim>\<open>nr_points\<close> elements.
  The script tests \<^verbatim>\<open>points_written <= nr_points\<close> after the increment, which always holds
  inside the loop: with one point it writes the record, then the separator, then the
  lead-out, and the array has two elements, the second one empty.
\<close>

theorem one_point_document:
  \<open>generate (default_config\<lparr>nr_points := 1\<rparr>) sample_floats =
     Inr [lead_in, record_text default_config sample_floats 0, separator, lead_out]
   \<and> file_content [lead_in, record_text default_config sample_floats 0, separator, lead_out] =
     ''{
    "locations": [{
        "timestampMs": "1379129160146",
        "latitudeE7": 0,
        "longitudeE7": 1800000000,
        "accuracy": 0
    }, {
    }]
}''
   \<and> document_shape
       (file_content [lead_in, record_text default_config sample_floats 0, separator, lead_out])
     = (0, 2)\<close>
proof -
  have g: "generate (default_config\<lparr>nr_points := 1\<rparr>) sample_floats =
     Inr [lead_in, record_text default_config sample_floats 0, separator, lead_out]"
    by (simp add: generate_writes)
  have c: \<open>file_content [lead_in, record_text default_config sample_floats 0, separator, lead_out] =
     ''{
    "locations": [{
        "timestampMs": "1379129160146",
        "latitudeE7": 0,
        "longitudeE7": 1800000000,
        "accuracy": 0
    }, {
    }]
}''\<close>
    by (simp add: file_content_def record_text_first lead_in_def separator_def lead_out_def)
  have "document_shape
       (file_content [lead_in, record_text default_config sample_floats 0, separator, lead_out])
     = (0, 2)"
    using document_shape_writes [of "default_config\<lparr>nr_points := 1\<rparr>" sample_floats]
    by simp
  with g c show ?thesis by (simp only: simp_thms)
qed

text \<open>
  Claim C2, as stated, fails: the script does not validate \<^verbatim>\<open>nr_points\<close>. With 0 points it
  raises nothing and writes the lead-in and the lead-out.
\<close>

theorem zero_points_not_rejected:
  "generate (default_config\<lparr>nr_points := 0\<rparr>) sample_floats = Inr [lead_in, lead_out]"
  by (simp add: generate_writes)

text \<open>
  Claim C2, amended. For \<^verbatim>\<open>nr_points\<close> 0 or negative the generator raises no error; it
  writes the lead-in and then the lead-out and nothing else. The output is a document with
  balanced brackets whose array holds a single, empty object.
\<close>

theorem nonpositive_points_document:
  assumes "nr_points cfg \<le> 0"
  shows \<open>generate cfg fr = Inr [lead_in, lead_out]
    \<and> file_content [lead_in, lead_out] = ''{
    "locations": [{
    }]
}''
    \<and> document_shape (file_content [lead_in, lead_out]) = (0, 1)\<close>
proof -
  have "[0..nr_points cfg - 1] = []" using assms by simp
  then have g: "generate cfg fr = Inr [lead_in, lead_out]"
    by (simp add: generate_writes)
  have c: \<open>file_content [lead_in, lead_out] = ''{
    "locations": [{
    }]
}''\<close>
    by (simp add: file_content_def lead_in_def lead_out_def)
  have "document_shape (file_content [lead_in, lead_out]) = (0, 1)"
    by (simp add: document_shape_def file_content_def scan_lead_in scan_lead_out)
  with g c show ?thesis by (simp only: simp_thms)
qed

theorem nonpositive_points_document_witness:
  \<open>nr_points (default_config\<lparr>nr_points := - 1\<rparr>) \<le> 0
   \<and> generate (default_config\<lparr>nr_points := - 1\<rparr>) sample_floats = Inr [lead_in, lead_out]
   \<and> document_shape (file_content [lead_in, lead_out]) = (0, 1)\<close>
proof -
  have h: "nr_points (default_config\<lparr>nr_points := - 1\<rparr>) \<le> 0" by simp
  note t = nonpositive_points_document [OF h, of sample_floats]
  show ?thesis
  proof (intro conjI)
    show "nr_points (default_config\<lparr>nr_points := - 1\<rparr>) \<le> 0" by (rule h)
    show "generate (default_config\<lparr>nr_points := - 1\<rparr>) sample_floats = Inr [lead_in, lead_out]"
      by (rule t [THEN conjunct1])
    show "document_shape (file_content [lead_in, lead_out]) = (0, 1)"
      by (rule t [THEN conjunct2, THEN conjunct2])
  qed
qed

lemma patterns_distinct:
  "pattern_activity \<noteq> pattern_accuracy_only" "pattern_activity \<noteq> pattern_altitude"
  "pattern_altitude \<noteq> pattern_accuracy_only"
  by (simp_all add: pattern_activity_def pattern_accuracy_only_def pattern_altitude_def)

lemma activity_shape_iff: "select_pattern i = Inr pattern_activity \<longleftrightarrow> i mod 6 = 5"
proof -
  have "0 \<le> i mod 6" "i mod 6 < 6" by simp_all
  then have "i mod 6 = 0 \<or> i mod 6 = 1 \<or> i mod 6 = 2 \<or> i mod 6 = 3 \<or> i mod 6 = 4 \<or> i mod 6 = 5"
    by arith
  then show ?thesis
    unfolding select_pattern_nth all_patterns_def
    using patterns_distinct by (elim disjE) simp_all
qed

text \<open>
  Claim C6. A record rendered with the activity pattern carries, inside its
  \<^verbatim>\<open>"activity"\<close> field, the timestamp of the record plus
  \<^verbatim>\<open>time_between_points_s // (1 + index % 3)\<close>, followed by the four fixed entries UNKNOWN 56,
  STILL 38, IN_VEHICLE 5 and TILTING 1, in this order.
\<close>

theorem activity_record:
  assumes "select_pattern i = Inr pattern_activity"
  shows \<open>render cfg fr i = Inr (''
        "timestampMs": "'' @ str_int (time_of cfg i) @ ''",
        "latitudeE7": '' @ str_int (latitude_rounded fr i) @ '',
        "longitudeE7": '' @ str_int (longitude_rounded fr i) @ '',
        "accuracy": '' @ str_int (accuracy_rule i) @ '',
        "activity": [{
            "timestampMs": "'' @
              str_int (time_of cfg i + time_between_points_s cfg div (1 + i mod 3)) @ ''",
            "activity": [{
                "type": "UNKNOWN",
                "confidence": 56
            }, {
                "type": "STILL",
                "confidence": 38
            }, {
                "type": "IN_VEHICLE",
                "confidence": 5
            }, {
                "type": "TILTING",
                "confidence": 1
            }]
        }]
'')\<close>
  using assms
  by (simp add: render_def format_args_def format_activity time_activity_of_def
      time_activity_rule_def round_py_def)

theorem activity_record_witness:
  \<open>select_pattern 5 = Inr pattern_activity
   \<and> render default_config sample_floats 5 = Inr ''
        "timestampMs": "1379129460146",
        "latitudeE7": 0,
        "longitudeE7": 1800000000,
        "accuracy": 100,
        "activity": [{
            "timestampMs": "1379129460166",
            "activity": [{
                "type": "UNKNOWN",
                "confidence": 56
            }, {
                "type": "STILL",
                "confidence": 38
            }, {
                "type": "IN_VEHICLE",
                "confidence": 5
            }, {
                "type": "TILTING",
                "confidence": 1
            }]
        }]
''\<close>
proof -
  have h: "select_pattern 5 = Inr pattern_activity"
    by (simp add: activity_shape_iff)
  have v: "str_int (time_of default_config 5) = ''1379129460146''"
    "str_int (latitude_rounded sample_floats 5) = ''0''"
    "str_int (longitude_rounded sample_floats 5) = ''1800000000''"
    "str_int (accuracy_rule 5) = ''100''"
    "str_int (time_of default_config 5 + time_between_points_s default_config div (1 + 5 mod 3))
       = ''1379129460166''"
    by (simp_all add: time_of_def time_rule_def extra_delay_def accuracy_rule_def round_py_def
        default_config_def sample_floats_def str_int_def str_nat.simps)
  note t = activity_record [OF h, of default_config sample_floats, unfolded v]
  from h t show ?thesis by simp
qed

section \<open>Properties of the changelog slicer\<close>

text \<open>
  Membership of a line in the section of the version, stated with quantifiers, depends
  only on the lines up to it; for the last line of a prefix it is what the loop computes
  for \<^verbatim>\<open>do_output\<close>. Once \<^verbatim>\<open>do_output\<close> is bound the loop copies exactly the lines of the
  section, so on a changelog that is empty or begins with a \<^verbatim>\<open>"# "\<close> line the script and the
  specification agree.
\<close>

lemma startswith_append: "startswith s (p @ q) \<Longrightarrow> startswith s p"
  by (induction s p rule: startswith.induct) auto

lemma in_version_section_iff:
  "in_version_section version src k \<longleftrightarrow>
     (\<exists>j. j \<le> k \<and> startswith (src ! j) (''# '' @ version)
        \<and> (\<forall>m. j < m \<and> m \<le> k \<longrightarrow> \<not> startswith (src ! m) ''# ''))"
proof -
  have inner: "\<And>j. list_all (\<lambda>m. \<not> startswith (src ! m) ''# '') [Suc j..<Suc k]
      \<longleftrightarrow> (\<forall>m. j < m \<and> m \<le> k \<longrightarrow> \<not> startswith (src ! m) ''# '')"
    unfolding list_all_iff set_upt by (auto simp: less_Suc_eq_le Suc_le_eq)
  show ?thesis
    unfolding in_version_section_def list_ex_iff inner set_upt
    by (auto simp: less_Suc_eq_le)
qed

lemma in_version_section_append:
  assumes "k < length xs"
  shows "in_version_section version (xs @ ys) k = in_version_section version xs k"
proof -
  have "\<And>j. j \<le> k \<Longrightarrow> (xs @ ys) ! j = xs ! j"
    using assms by (simp add: nth_append)
  then show ?thesis
    unfolding in_version_section_iff by (metis (no_types, lifting))
qed

lemma in_version_section_last:
  "in_version_section version (pre @ [line]) (length pre) \<longleftrightarrow>
     startswith line (''# '' @ version)
     \<or> (\<not> startswith line ''# '' \<and> pre \<noteq> []
         \<and> in_version_section version pre (length pre - 1))"
  (is "?L \<longleftrightarrow> ?H \<or> ?R")
proof
  assume ?L
  then obtain j where j: "j \<le> length pre"
    "startswith ((pre @ [line]) ! j) (''# '' @ version)"
    "\<forall>m. j < m \<and> m \<le> length pre \<longrightarrow> \<not> startswith ((pre @ [line]) ! m) ''# ''"
    unfolding in_version_section_iff by blast
  show "?H \<or> ?R"
  proof (cases "j = length pre")
    case True
    with j(2) show ?thesis by simp
  next
    case False
    with j(1) have lt: "j < length pre" by simp
    then have ne: "pre \<noteq> []" by auto
    from j(3) lt have "\<not> startswith line ''# ''" by (auto dest: spec [of _ "length pre"])
    moreover have "in_version_section version pre (length pre - 1)"
      unfolding in_version_section_iff
    proof (intro exI [of _ j] conjI allI impI)
      show "j \<le> length pre - 1" using lt by simp
      show "startswith (pre ! j) (''# '' @ version)" using j(2) lt by (simp add: nth_append)
      fix m assume m: "j < m \<and> m \<le> length pre - 1"
      then have "m < length pre" using lt by arith
      moreover have "j < m \<and> m \<le> length pre" using m by arith
      then have "\<not> startswith ((pre @ [line]) ! m) ''# ''" using j(3) by blast
      ultimately show "\<not> startswith (pre ! m) ''# ''" by (simp add: nth_append)
    qed
    ultimately show ?thesis using ne by simp
  qed
next
  assume "?H \<or> ?R"
  then show ?L
  proof
    assume h: ?H
    show ?L unfolding in_version_section_iff
      using h by (intro exI [of _ "length pre"]) auto
  next
    assume r: ?R
    then obtain j where j: "j \<le> length pre - 1" "startswith (pre ! j) (''# '' @ version)"
      "\<forall>m. j < m \<and> m \<le> length pre - 1 \<longrightarrow> \<not> startswith (pre ! m) ''# ''"
      unfolding in_version_section_iff by blast
    from r have ne: "pre \<noteq> []" and nl: "\<not> startswith line ''# ''" by simp_all
    from ne j(1) have lt: "j < length pre" by (cases pre) auto
    show ?L unfolding in_version_section_iff
    proof (intro exI [of _ j] conjI allI impI)
      show "j \<le> length pre" using lt by simp
      show "startswith ((pre @ [line]) ! j) (''# '' @ version)"
        using j(2) lt by (simp add: nth_append)
      fix m assume m: "j < m \<and> m \<le> length pre"
      show "\<not> startswith ((pre @ [line]) ! m) ''# ''"
      proof (cases "m = length pre")
        case True
        then show ?thesis using nl by simp
      next
        case False
        with m have ml: "m < length pre" and "j < m \<and> m \<le> length pre - 1" by arith+
        then have "\<not> startswith (pre ! m) ''# ''" using j(3) by blast
        then show ?thesis using ml by (simp add: nth_append)
      qed
    qed
  qed
qed

lemma copy_loop_invariant:
  assumes "(pre = [] \<and> do_output = None)
      \<or> (pre \<noteq> [] \<and> do_output = Some (in_version_section version pre (length pre - 1)))"
    and "do_output \<noteq> None \<or> src = [] \<or> startswith (hd src) ''# ''"
  shows "copy_loop version src do_output target =
     (target @ map (\<lambda>k. (pre @ src) ! k)
        (filter (in_version_section version (pre @ src)) [length pre..<length pre + length src]),
      None)"
  using assms
proof (induction src arbitrary: pre do_output target)
  case Nil
  then show ?case by simp
next
  case (Cons line rest)
  define b where "b = in_version_section version (pre @ [line]) (length pre)"
  define d1 where "d1 = (if startswith line (''# '' @ version) then Some True
             else if startswith line ''# '' then Some False
             else do_output)"
  have d1: "d1 = Some b"
  proof (cases "startswith line (''# '' @ version)")
    case True
    then show ?thesis by (simp add: d1_def b_def in_version_section_last)
  next
    case hdr: False
    show ?thesis
    proof (cases "startswith line ''# ''")
      case True
      with hdr show ?thesis by (simp add: d1_def b_def in_version_section_last)
    next
      case False
      with Cons.prems(2) have "do_output \<noteq> None" by simp
      with Cons.prems(1) have "pre \<noteq> []"
        "do_output = Some (in_version_section version pre (length pre - 1))" by auto
      with hdr False show ?thesis by (simp add: d1_def b_def in_version_section_last)
    qed
  qed
  have step: "copy_loop version (line # rest) do_output target =
      copy_loop version rest (Some b) (if b then target @ [line] else target)"
    using d1 unfolding d1_def by (simp add: Let_def)
  have inv: "((pre @ [line]) = [] \<and> Some b = None)
      \<or> ((pre @ [line]) \<noteq> [] \<and>
          Some b = Some (in_version_section version (pre @ [line]) (length (pre @ [line]) - 1)))"
    by (simp add: b_def)
  have ih: "copy_loop version rest (Some b) (if b then target @ [line] else target) =
     ((if b then target @ [line] else target) @ map (\<lambda>k. ((pre @ [line]) @ rest) ! k)
        (filter (in_version_section version ((pre @ [line]) @ rest))
           [length (pre @ [line])..<length (pre @ [line]) + length rest]),
      None)"
    by (rule Cons.IH [OF inv]) simp
  have here: "in_version_section version (pre @ line # rest) (length pre) = b"
    using in_version_section_append [of "length pre" "pre @ [line]" version rest]
    by (simp add: b_def)
  have range: "[length pre..<length pre + length (line # rest)] =
      length pre # [Suc (length pre)..<Suc (length pre) + length rest]"
    by (subst upt_rec) simp
  show ?case
    unfolding step ih range using here by simp
qed

lemma copy_loop_refines_spec:
  assumes "src = [] \<or> startswith (hd src) ''# ''"
  shows "copy_loop version src None [] = (spec_slice version src, None)"
  using copy_loop_invariant [of "[]" None version src "[]"] assms
  by (simp add: spec_slice_def)

lemma copy_loop_unbound:
  assumes "src \<noteq> []" "\<not> startswith (hd src) ''# ''"
  shows "copy_loop version src None target = (target, Some UnboundLocalError)"
proof -
  obtain line rest where src: "src = line # rest" using assms(1) by (cases src) auto
  with assms(2) have n: "\<not> startswith line ''# ''" by simp
  then have "\<not> startswith line (''# '' @ version)" using startswith_append by blast
  with n show ?thesis by (simp add: src)
qed

text \<open>
  Claim C8. \<^verbatim>\<open>run_conversion\<close> is not total: when the source file is not empty and its
  first line does not begin with \<^verbatim>\<open>"# "\<close>, neither assignment to \<^verbatim>\<open>do_output\<close> runs before
  the variable is read, and the run ends in \<^verbatim>\<open>UnboundLocalError\<close> with no line written to
  the target (which \<^verbatim>\<open>open(..., 'w')\<close> has created empty by then).
\<close>

theorem unbound_do_output:
  assumes "4 \<le> length argv" "fs (argv ! 1) = Some src"
    and "src \<noteq> []" "\<not> startswith (hd src) ''# ''"
  shows "raised (run_conversion argv fs) = Some UnboundLocalError
    \<and> files (run_conversion argv fs) = fs(argv ! 2 \<mapsto> [])
    \<and> copy_loop (argv ! 3) src None [] = ([], Some UnboundLocalError)"
  using assms(1,2) copy_loop_unbound [OF assms(3,4), of "argv ! 3" "[]"]
  by (simp add: run_conversion_def)

theorem unbound_do_output_witness:
  "4 \<le> length sample_argv \<and> sample_fs (sample_argv ! 1) = Some sample_changelog
   \<and> sample_changelog \<noteq> [] \<and> \<not> startswith (hd sample_changelog) ''# ''
   \<and> raised (run_conversion sample_argv sample_fs) = Some UnboundLocalError
   \<and> files (run_conversion sample_argv sample_fs) ''changes.md'' = Some []"
proof -
  have h: "4 \<le> length sample_argv" "sample_fs (sample_argv ! 1) = Some sample_changelog"
    "sample_changelog \<noteq> []" "\<not> startswith (hd sample_changelog) ''# ''"
    by (simp_all add: sample_argv_def sample_fs_def sample_changelog_def)
  note t = unbound_do_output [of sample_argv sample_fs sample_changelog, OF h]
  have "files (run_conversion sample_argv sample_fs) ''changes.md'' = Some []"
    unfolding t [THEN conjunct2, THEN conjunct1] by (simp add: sample_argv_def)
  with h t [THEN conjunct1] show ?thesis by (simp only: simp_thms)
qed

lemma spec_slice_sample:
  "spec_slice ''1.0'' sample_changelog = [''# 1.0\<newline>'', ''first\<newline>'']"
  by (simp add: spec_slice_def in_version_section_def sample_changelog_def)

text \<open>
  Claim C7. The slicer is to copy exactly the lines of the section of the version, for
  every changelog. On the sample changelog, whose first line is a title, the section of
  version 1.0 is its header and the line below it; the loop copies nothing and stops at the
  first line with \<^verbatim>\<open>UnboundLocalError\<close>.
\<close>

theorem slicer_fails_before_first_header:
  "copy_loop ''1.0'' sample_changelog None [] = ([], Some UnboundLocalError)
   \<and> spec_slice ''1.0'' sample_changelog = [''# 1.0\<newline>'', ''first\<newline>'']
   \<and> raised (run_conversion sample_argv sample_fs) = Some UnboundLocalError
   \<and> files (run_conversion sample_argv sample_fs) ''changes.md'' = Some []"
proof -
  have c: "copy_loop ''1.0'' sample_changelog None [] = ([], Some UnboundLocalError)"
    by (simp add: sample_changelog_def)
  then have "raised (run_conversion sample_argv sample_fs) = Some UnboundLocalError"
    "files (run_conversion sample_argv sample_fs) ''changes.md'' = Some []"
    by (simp_all add: run_conversion_def sample_argv_def sample_fs_def)
  with c spec_slice_sample show ?thesis by (simp only: simp_thms)
qed

lemma slicer_copies_section:
  "copy_loop ''1.0'' (tl sample_changelog) None [] = ([''# 1.0\<newline>'', ''first\<newline>''], None)"
  by (simp add: sample_changelog_def)

section \<open>Properties of the key lister\<close>

text \<open>
  The names collected are the first words of the lines that have one; the lines printed
  are sorted and without repetition.
\<close>

lemma findall_sample:
  \<open>findall ascii_word ''    "timestampMs" : "1379129160146",\<newline>'' =
     [''timestampMs'', ''1379129160146'']\<close>
  by (simp add: findall_def ascii_word_def)

lemma tool_collect_acc:
  "tool_collect w lines names =
     names \<union> {hd (findall w line) | line. line \<in> set lines \<and> findall w line \<noteq> []}"
proof (induction lines arbitrary: names)
  case Nil
  then show ?case by simp
next
  case (Cons line lines)
  show ?case
  proof (cases "findall w line = []")
    case True
    then show ?thesis by (auto simp: Cons.IH Let_def)
  next
    case False
    then have "findall w line ! 0 = hd (findall w line)" by (simp add: hd_conv_nth)
    with False show ?thesis by (auto simp: Cons.IH Let_def)
  qed
qed

lemma collect_same: "tools_collect w lines names = tool_collect w lines names"
  by (induction lines arbitrary: names) (simp_all add: Let_def)

text \<open>
  Claim C10. The two copies of the key lister behave alike: on every file system, and
  for every class of word characters, both collect the same set of first words and print
  the same lines in the same order, or both fail to open the file.
\<close>

theorem key_listers_equivalent:
  "tools_collect w lines {} = tool_collect w lines {}
   \<and> tools_unique_keys w fs = tool_unique_keys w fs"
  by (simp add: collect_same tools_unique_keys_def tool_unique_keys_def tool_filename_def
      cong: option.case_cong)

lemma tool_unique_keys_sorted:
  assumes "tool_unique_keys w fs = Inr out"
  shows "\<exists>names. out = map name_line names \<and> sorted names \<and> distinct names"
  using assms
  by (auto simp: tool_unique_keys_def split: option.splits)

text \<open>The lister on the sample export.\<close>

lemma collect_sample:
  "tool_collect ascii_word sample_export {} = set [''accuracy'', ''locations'', ''timestampMs'']"
  by (simp add: sample_export_def findall_def ascii_word_def Let_def insert_commute)

lemma sorted_sample:
  "sorted_list_of_set (set [''accuracy'', ''locations'', ''timestampMs'']) =
     [''accuracy'', ''locations'', ''timestampMs'']"
  by (rule sorted_list_of_set.idem_if_sorted_distinct) simp_all

lemma tool_unique_keys_sample:
  "tool_unique_keys ascii_word [tool_filename \<mapsto> sample_export] =
     Inr [''accuracy : 8'', ''locations : 9'', ''timestampMs : 11'']"
proof -
  have "tool_unique_keys ascii_word [tool_filename \<mapsto> sample_export] =
      Inr (map name_line (sorted_list_of_set (tool_collect ascii_word sample_export {})))"
    by (simp add: tool_unique_keys_def)
  also have "\<dots> = Inr (map name_line [''accuracy'', ''locations'', ''timestampMs''])"
    by (simp only: collect_sample sorted_sample)
  also have "\<dots> = Inr [''accuracy : 8'', ''locations : 9'', ''timestampMs : 11'']"
    by (simp add: name_line_def str_nat.simps)
  finally show ?thesis .
qed

end
